theory Spec2Isabelle
  imports Main "HOL-Library.Char_ord" "HOL-Library.List_Lexorder" "HOL-Library.Multiset"
begin

section \<open>Book records\<close>

text \<open>
  One element of the \<^verbatim>\<open>docs\<close> array of the search response (\<^verbatim>\<open>src/src/App.jsx\<close>).
  Every field but \<^verbatim>\<open>key\<close> may be absent from the JSON object, which the code guards with
  \<^verbatim>\<open>||\<close>, \<^verbatim>\<open>??\<close> and \<^verbatim>\<open>?.\<close>; an absent field is \<open>None\<close>. A string is the
  list of its code units, compared unit by unit as JavaScript's \<^verbatim>\<open><\<close> and \<^verbatim>\<open>>\<close> compare strings.
  \<^verbatim>\<open>ratings_average\<close> is requested but never read, and is left out.
\<close>

record doc =
  key :: string
  title :: "string option"
  subtitle :: "string option"
  author_name :: "string list option"
  first_publish_year :: "int option"
  publish_year :: "int list option"
  publisher :: "string list option"
  edition_count :: "int option"
  cover_i :: "int option"
  language :: "string list option"
  ebook_count_i :: "int option"
  subject :: "string list option"

text \<open>\<^verbatim>\<open>x || d\<close> on an optional number: absent and \<open>0\<close> are both falsy.\<close>

definition orNum :: "int option \<Rightarrow> int \<Rightarrow> int" where
  "orNum x d = (case x of None \<Rightarrow> d | Some v \<Rightarrow> if v = 0 then d else v)"

text \<open>\<^verbatim>\<open>x || []\<close> on an optional array (an array, even empty, is truthy).\<close>

definition orEmpty :: "'a list option \<Rightarrow> 'a list" where
  "orEmpty x = (case x of None \<Rightarrow> [] | Some xs \<Rightarrow> xs)"

text \<open>\<^verbatim>\<open>x || ""\<close> on an optional string.\<close>

definition orStr :: "string option \<Rightarrow> string" where
  "orStr x = (case x of None \<Rightarrow> [] | Some s \<Rightarrow> s)"

section \<open>Sorting (\<^verbatim>\<open>doSearch\<close>, lines 358-369)\<close>

text \<open>The values of the sort selector: relevance, title, author, latest, year.\<close>

datatype sortKey = SortRelevance | SortTitle | SortAuthor | SortLatest | SortYear

text \<open>
  The entries of \<^verbatim>\<open>keyFns\<close>. \<^verbatim>\<open>String.prototype.toLowerCase\<close> belongs to the JavaScript
  runtime, which folds every cased character of Unicode: it is the parameter
  \<open>toLowerCase\<close> of the text keys, and of every function that sorts. Nothing is assumed
  about it. \<^verbatim>\<open>Math.max(...ys)\<close> is only called on a non-empty array, where it is the fold
  of \<open>max\<close> over the array.
\<close>

definition keyTitle :: "(string \<Rightarrow> string) \<Rightarrow> doc \<Rightarrow> string" where
  "keyTitle toLowerCase d = toLowerCase (orStr (title d))"

definition keyAuthor :: "(string \<Rightarrow> string) \<Rightarrow> doc \<Rightarrow> string" where
  "keyAuthor toLowerCase d =
     toLowerCase (case author_name d of
        None \<Rightarrow> []
      | Some [] \<Rightarrow> []
      | Some (a # _) \<Rightarrow> a)"

definition keyYear :: "doc \<Rightarrow> int" where
  "keyYear d = orNum (first_publish_year d) 0"

definition keyLatest :: "doc \<Rightarrow> int" where
  "keyLatest d =
     (case publish_year d of
        None \<Rightarrow> orNum (first_publish_year d) 0
      | Some [] \<Rightarrow> orNum (first_publish_year d) 0
      | Some (y # ys) \<Rightarrow> fold max ys y)"

text \<open>
  The two comparators: \<^verbatim>\<open>(a, b) => keyFn(b) - keyFn(a)\<close> for the year keys and
  \<^verbatim>\<open>(a, b) => (keyFn(a) > keyFn(b) ? 1 : keyFn(a) < keyFn(b) ? -1 : 0)\<close> otherwise.
\<close>

definition cmpDesc :: "('a \<Rightarrow> int) \<Rightarrow> 'a \<Rightarrow> 'a \<Rightarrow> int" where
  "cmpDesc keyFn a b = keyFn b - keyFn a"

definition cmpAsc :: "('a \<Rightarrow> 'k::linorder) \<Rightarrow> 'a \<Rightarrow> 'a \<Rightarrow> int" where
  "cmpAsc keyFn a b = (if keyFn a > keyFn b then 1 else if keyFn a < keyFn b then - 1 else 0)"

text \<open>
  \<^verbatim>\<open>Array.prototype.sort\<close> with a comparator. The language requires the sort to be
  stable, so for a consistent comparator the result is the one a stable insertion sort
  gives: an element goes before the first element it does not compare greater than.
\<close>

fun insort_cmp :: "('a \<Rightarrow> 'a \<Rightarrow> int) \<Rightarrow> 'a \<Rightarrow> 'a list \<Rightarrow> 'a list" where
  "insort_cmp cmp x [] = [x]"
| "insort_cmp cmp x (y # ys) = (if cmp x y \<le> 0 then x # y # ys else y # insort_cmp cmp x ys)"

definition js_sort :: "('a \<Rightarrow> 'a \<Rightarrow> int) \<Rightarrow> 'a list \<Rightarrow> 'a list" where
  "js_sort cmp xs = foldr (insort_cmp cmp) xs []"

text \<open>
  \<^verbatim>\<open>sorted\<close> of \<^verbatim>\<open>doSearch\<close>: the year keys take the descending comparator, every other
  key the ascending one; the key function of relevance is \<^verbatim>\<open>() => 0\<close>.
\<close>

definition sortDocs :: "(string \<Rightarrow> string) \<Rightarrow> sortKey \<Rightarrow> doc list \<Rightarrow> doc list" where
  "sortDocs toLowerCase sortBy combined =
     (case sortBy of
        SortYear \<Rightarrow> js_sort (cmpDesc keyYear) combined
      | SortLatest \<Rightarrow> js_sort (cmpDesc keyLatest) combined
      | SortTitle \<Rightarrow> js_sort (cmpAsc (keyTitle toLowerCase)) combined
      | SortAuthor \<Rightarrow> js_sort (cmpAsc (keyAuthor toLowerCase)) combined
      | SortRelevance \<Rightarrow> js_sort (cmpAsc (\<lambda>d. 0::int)) combined)"

section \<open>Search parameters and the outbound query\<close>

datatype mode = ModeAll | ModeTitle | ModeAuthor | ModeIsbn

text \<open>
  The state variables a search reads. The inputs \<^verbatim>\<open>title\<close> and \<^verbatim>\<open>subject\<close> are
  \<open>titleInput\<close> and \<open>subjectInput\<close> here, the names being taken by the record fields.
\<close>

record params =
  mode :: mode
  query :: string
  titleInput :: string
  author :: string
  isbn :: string
  subjectInput :: string
  langFilter :: string
  ebookOnly :: bool
  yearMin :: string
  yearMax :: string
  sortBy :: sortKey
  page :: nat
  perPage :: nat

text \<open>\<^verbatim>\<open>String(n)\<close> of a natural number.\<close>

definition digit :: "nat \<Rightarrow> char" where
  "digit n = ''0123456789'' ! n"

fun toString :: "nat \<Rightarrow> string" where
  "toString n = (if n < 10 then [digit n] else toString (n div 10) @ [digit (n mod 10)])"

declare toString.simps [simp del]

text \<open>\<^verbatim>\<open>Array.prototype.join\<close>.\<close>

fun join :: "string \<Rightarrow> string list \<Rightarrow> string" where
  "join sep [] = []"
| "join sep [x] = x"
| "join sep (x # y # ys) = x @ sep @ join sep (y # ys)"

definition fields :: "string list" where
  "fields = [''key'', ''title'', ''subtitle'', ''author_name'', ''first_publish_year'',
     ''publish_year'', ''publisher'', ''edition_count'', ''cover_i'', ''language'',
     ''ebook_count_i'', ''subject'', ''ratings_average'']"

text \<open>
  \<^verbatim>\<open>buildQuery\<close>: the search parameters of the URL, in the order they are set (each name
  is set once on a fresh URL). The percent-encoding of \<^verbatim>\<open>url.toString()\<close> is not
  modelled: a request is its list of parameters.
\<close>

definition buildQuery :: "params \<Rightarrow> (string \<times> string) list" where
  "buildQuery p =
     (if mode p = ModeAll \<and> query p \<noteq> [] then [(''q'', query p)] else []) @
     (if mode p = ModeTitle \<and> titleInput p \<noteq> [] then [(''title'', titleInput p)] else []) @
     (if mode p = ModeAuthor \<and> author p \<noteq> [] then [(''author'', author p)] else []) @
     (if mode p = ModeIsbn \<and> isbn p \<noteq> [] then [(''isbn'', isbn p)] else []) @
     (if subjectInput p \<noteq> [] then [(''subject'', subjectInput p)] else []) @
     (if page p \<noteq> 0 then [(''page'', toString (page p))] else []) @
     (if perPage p \<noteq> 0 then [(''limit'', toString (perPage p))] else []) @
     [(''fields'', join '','' fields)]"

section \<open>Client-side filters (\<^verbatim>\<open>doSearch\<close>, lines 333-342)\<close>

text \<open>
  \<^verbatim>\<open>parseInt(s, 10)\<close>: leading white space, an optional sign, then the longest run of
  decimal digits; \<open>None\<close> is \<^verbatim>\<open>NaN\<close> (no digit). The value is exact here, where
  JavaScript rounds beyond \<open>2^53\<close>.
\<close>

definition isWhite :: "char \<Rightarrow> bool" where
  "isWhite c = (c \<in> set [CHR 0x09, CHR 0x0A, CHR 0x0B, CHR 0x0C, CHR 0x0D, CHR 0x20])"

definition isDigit :: "char \<Rightarrow> bool" where
  "isDigit c = (CHR ''0'' \<le> c \<and> c \<le> CHR ''9'')"

definition digitVal :: "char \<Rightarrow> int" where
  "digitVal c = int (of_char c) - 48"

definition parseDigits :: "string \<Rightarrow> int option" where
  "parseDigits s =
     (let ds = takeWhile isDigit s
      in if ds = [] then None else Some (foldl (\<lambda>a c. 10 * a + digitVal c) 0 ds))"

definition parseInt :: "string \<Rightarrow> int option" where
  "parseInt s =
     (case dropWhile isWhite s of
        [] \<Rightarrow> None
      | c # r \<Rightarrow>
          if c = CHR ''-'' then map_option uminus (parseDigits r)
          else if c = CHR ''+'' then parseDigits r
          else parseDigits (c # r))"

text \<open>The year-range filter, lines 339-342.\<close>

definition yearRange :: "string \<Rightarrow> string \<Rightarrow> doc list \<Rightarrow> doc list" where
  "yearRange ymin ymax filtered =
     (let yMin = parseInt ymin;
          yMax = parseInt ymax;
          f1 = (case yMin of
                  None \<Rightarrow> filtered
                | Some m \<Rightarrow> filter (\<lambda>d. orNum (first_publish_year d) 0 \<ge> m) filtered)
      in case yMax of
           None \<Rightarrow> f1
         | Some M \<Rightarrow> filter (\<lambda>d. orNum (first_publish_year d) 99999 \<le> M) f1)"

definition applyFilters :: "params \<Rightarrow> doc list \<Rightarrow> doc list" where
  "applyFilters p docs =
     (let f1 = (if ebookOnly p then filter (\<lambda>d. orNum (ebook_count_i d) 0 > 0) docs else docs);
          f2 = (if langFilter p \<noteq> ''any''
                then filter (\<lambda>d. langFilter p \<in> set (orEmpty (language d))) f1 else f1)
      in yearRange (yearMin p) (yearMax p) f2)"

section \<open>Facets (\<^verbatim>\<open>doSearch\<close>, lines 344-356)\<close>

text \<open>
  A JavaScript \<^verbatim>\<open>Set\<close> keeps its elements in insertion order; \<^verbatim>\<open>add\<close> of an element
  it has leaves it as it is. \<^verbatim>\<open>Array.from(set)\<close> is the list of first occurrences.
\<close>

definition setAdd :: "'a \<Rightarrow> 'a list \<Rightarrow> 'a list" where
  "setAdd x s = (if x \<in> set s then s else s @ [x])"

record facets =
  langs :: "string list"
  subjects :: "string list"
  publishers :: "string list"

text \<open>The body of \<^verbatim>\<open>combined.forEach\<close>.\<close>

definition collect :: "doc \<Rightarrow> facets \<Rightarrow> facets" where
  "collect d f =
     \<lparr> langs = fold setAdd (orEmpty (language d)) (langs f),
       subjects = fold setAdd (take 10 (orEmpty (subject d))) (subjects f),
       publishers = fold setAdd (take 3 (orEmpty (publisher d))) (publishers f) \<rparr>"

definition deriveFacets :: "doc list \<Rightarrow> facets" where
  "deriveFacets combined = fold collect combined \<lparr> langs = [], subjects = [], publishers = [] \<rparr>"

section \<open>The component state\<close>

text \<open>
  The \<^verbatim>\<open>useState\<close> variables of \<^verbatim>\<open>BookFinderApp\<close> that the search, the pagination and
  the favorites read or write (\<^verbatim>\<open>view\<close> and \<^verbatim>\<open>selectedDoc\<close> are presentation).
\<close>

record state =
  params :: params
  loading :: bool
  error :: string
  results :: "doc list"
  numFound :: int
  availableLangs :: "string list"
  availableSubjects :: "string list"
  availablePublishers :: "string list"
  favorites :: "doc list"

text \<open>
  A function of the component body (\<^verbatim>\<open>doSearch\<close>, \<^verbatim>\<open>exec\<close>, \<^verbatim>\<open>loadMore\<close>, \<^verbatim>\<open>isFav\<close>) is
  created anew at every render and reads the \<^verbatim>\<open>const\<close> bindings of that render: the
  values the state had when the render ran. A call that was scheduled from a render
  (\<^verbatim>\<open>setTimeout\<close>) therefore carries these values with it, whatever \<^verbatim>\<open>setPage\<close> or
  \<^verbatim>\<open>setResults\<close> did in between. A scheduled call is the render's state (\<open>snap\<close>) and
  the \<^verbatim>\<open>append\<close> option.
\<close>

record job =
  snap :: state
  optAppend :: bool

text \<open>
  A fetch that has been issued and has not settled: its \<^verbatim>\<open>AbortController\<close>, the
  call it belongs to and the query it was built with.
\<close>

record request =
  ctrl :: nat
  call :: job
  url :: "(string \<times> string) list"

text \<open>
  How a fetch settles: \<^verbatim>\<open>res.ok\<close> with the parsed body (\<^verbatim>\<open>data.docs\<close> when it is an
  array, \<^verbatim>\<open>data.numFound\<close> when it is a number), a response that is not \<^verbatim>\<open>ok\<close> with its
  status, or a rejection of \<^verbatim>\<open>fetch\<close> or of \<^verbatim>\<open>res.json()\<close> with the error's name and
  message (a \<^verbatim>\<open>TypeError\<close> for a transport failure, a \<^verbatim>\<open>SyntaxError\<close> for a body that is
  not JSON).
\<close>

datatype outcome =
    Ok "doc list option" "int option"
  | NotOk nat
  | Rejected string string

text \<open>
  The component with its refs and its environment: the current state, \<^verbatim>\<open>abortRef\<close>,
  the controllers whose signal has been aborted, the next fresh controller, the
  fetches in flight, \<^verbatim>\<open>debounceTimer\<close> (the pending 350 ms call, if any) and the
  pending \<^verbatim>\<open>setTimeout(..., 0)\<close> calls in the order they were scheduled.
\<close>

record app =
  st :: state
  abortRef :: "nat option"
  aborted :: "nat list"
  nextCtrl :: nat
  inflight :: "request list"
  debounceTimer :: "job option"
  timeouts :: "job list"

section \<open>\<^verbatim>\<open>doSearch\<close>\<close>

text \<open>
  \<^verbatim>\<open>exec\<close> up to its first \<^verbatim>\<open>await\<close> (lines 312-328): clear the error, set the loading
  flag, abort the controller in \<^verbatim>\<open>abortRef\<close>, install a new one, build the query from
  the values of the render \<open>j\<close> comes from and issue the fetch.
\<close>

definition exec :: "job \<Rightarrow> app \<Rightarrow> app" where
  "exec j a =
     a\<lparr> st := (st a)\<lparr> error := [], loading := True \<rparr>,
        aborted := (case abortRef a of None \<Rightarrow> aborted a | Some c \<Rightarrow> c # aborted a),
        abortRef := Some (nextCtrl a),
        nextCtrl := Suc (nextCtrl a),
        inflight := inflight a @
          [\<lparr> ctrl = nextCtrl a, call = j, url = buildQuery (params (snap j)) \<rparr>] \<rparr>"

text \<open>
  \<^verbatim>\<open>doSearch(opts)\<close> of the render \<open>s\<close>: run \<^verbatim>\<open>exec\<close> now, or replace the debounce
  timer by one that will.
\<close>

definition doSearch :: "state \<Rightarrow> bool \<Rightarrow> bool \<Rightarrow> app \<Rightarrow> app" where
  "doSearch s isAppend immediate a =
     (let j = \<lparr> snap = s, optAppend = isAppend \<rparr>
      in if immediate then exec j a else a\<lparr> debounceTimer := Some j \<rparr>)"

text \<open>
  The \<^verbatim>\<open>try\<close> block after a successful fetch (lines 331-372), run on the current
  state \<open>s\<close> for the call \<open>j\<close>: filter the page, merge, derive the facets, sort, publish.
\<close>

definition onSuccess ::
  "(string \<Rightarrow> string) \<Rightarrow> job \<Rightarrow> doc list option \<Rightarrow> int option \<Rightarrow> state \<Rightarrow> state" where
  "onSuccess toLowerCase j dataDocs dataNumFound s =
     (let docs = orEmpty dataDocs;
          filtered = applyFilters (params (snap j)) docs;
          combined = (if optAppend j then results (snap j) @ filtered else filtered);
          f = deriveFacets combined;
          sorted = sortDocs toLowerCase (sortBy (params (snap j))) combined
      in s\<lparr> availableLangs := take 20 (langs f),
             availableSubjects := take 50 (subjects f),
             availablePublishers := take 30 (publishers f),
             results := sorted,
             numFound := (case dataNumFound of Some n \<Rightarrow> n | None \<Rightarrow> int (length sorted)) \<rparr>)"

text \<open>The \<^verbatim>\<open>catch\<close> block (line 374) for an error with name \<open>n\<close> and message \<open>m\<close>.\<close>

definition onError :: "string \<Rightarrow> string \<Rightarrow> state \<Rightarrow> state" where
  "onError n m s =
     (if n \<noteq> ''AbortError''
      then s\<lparr> error := (if m = [] then ''Something went wrong'' else m) \<rparr> else s)"

text \<open>
  The rest of \<^verbatim>\<open>exec\<close> once the fetch has settled: the \<^verbatim>\<open>try\<close> block, the throw of
  \<^verbatim>\<open>new Error(`HTTP ${res.status}`)\<close> or the rejection into \<^verbatim>\<open>catch\<close>, then \<^verbatim>\<open>finally\<close>.
\<close>

definition finish :: "(string \<Rightarrow> string) \<Rightarrow> job \<Rightarrow> outcome \<Rightarrow> state \<Rightarrow> state" where
  "finish toLowerCase j out s =
     (case out of
        Ok dataDocs dataNumFound \<Rightarrow> onSuccess toLowerCase j dataDocs dataNumFound s
      | NotOk status \<Rightarrow> onError ''Error'' (''HTTP '' @ toString status) s
      | Rejected n m \<Rightarrow> onError n m s)\<lparr> loading := False \<rparr>"

text \<open>
  The fetch of controller \<open>c\<close> settles. A fetch whose signal was aborted rejects with
  an \<^verbatim>\<open>AbortError\<close>, whatever the network had for it.
\<close>

definition settle :: "(string \<Rightarrow> string) \<Rightarrow> nat \<Rightarrow> outcome \<Rightarrow> app \<Rightarrow> app" where
  "settle toLowerCase c out a =
     (case find (\<lambda>r. ctrl r = c) (inflight a) of
        None \<Rightarrow> a
      | Some r \<Rightarrow>
          a\<lparr> inflight := filter (\<lambda>r. ctrl r \<noteq> c) (inflight a),
             st := finish toLowerCase (call r)
                     (if c \<in> set (aborted a)
                      then Rejected ''AbortError'' ''The operation was aborted.'' else out)
                     (st a) \<rparr>)"

section \<open>Effects and event handlers\<close>

text \<open>The setters of the non-pagination parameters, as the inputs call them.\<close>

datatype edit =
    SetMode mode
  | SetQuery string
  | SetTitle string
  | SetAuthor string
  | SetIsbn string
  | SetSubject string
  | SetLangFilter string
  | SetEbookOnly bool
  | SetYearMin string
  | SetYearMax string
  | SetSortBy sortKey
  | SetPerPage nat

text \<open>
  The state update of each input's \<^verbatim>\<open>onChange\<close>. The page-size selector (line 528)
  also calls \<^verbatim>\<open>setPage(1)\<close>; no other input does.
\<close>

fun applyEdit :: "edit \<Rightarrow> params \<Rightarrow> params" where
  "applyEdit (SetMode v) p = p\<lparr> mode := v \<rparr>"
| "applyEdit (SetQuery v) p = p\<lparr> query := v \<rparr>"
| "applyEdit (SetTitle v) p = p\<lparr> titleInput := v \<rparr>"
| "applyEdit (SetAuthor v) p = p\<lparr> author := v \<rparr>"
| "applyEdit (SetIsbn v) p = p\<lparr> isbn := v \<rparr>"
| "applyEdit (SetSubject v) p = p\<lparr> subjectInput := v \<rparr>"
| "applyEdit (SetLangFilter v) p = p\<lparr> langFilter := v \<rparr>"
| "applyEdit (SetEbookOnly v) p = p\<lparr> ebookOnly := v \<rparr>"
| "applyEdit (SetYearMin v) p = p\<lparr> yearMin := v \<rparr>"
| "applyEdit (SetYearMax v) p = p\<lparr> yearMax := v \<rparr>"
| "applyEdit (SetSortBy v) p = p\<lparr> sortBy := v \<rparr>"
| "applyEdit (SetPerPage v) p = p\<lparr> perPage := v, page := 1 \<rparr>"

text \<open>
  The effect of lines 387-391, run after the render \<open>s\<close>: \<^verbatim>\<open>setPage(1)\<close>, then the
  debounced \<^verbatim>\<open>doSearch({ append: false })\<close> of that render.
\<close>

definition searchEffect :: "state \<Rightarrow> app \<Rightarrow> app" where
  "searchEffect s a =
     doSearch s False False (a\<lparr> st := (st a)\<lparr> params := (params (st a))\<lparr> page := 1 \<rparr> \<rparr> \<rparr>)"

text \<open>
  An input changes: the state is updated and the component renders again; the effect
  runs when one of its dependencies (every parameter but the page) has changed.
\<close>

definition changeParam :: "edit \<Rightarrow> app \<Rightarrow> app" where
  "changeParam e a =
     (let p = params (st a);
          p' = applyEdit e p;
          a' = a\<lparr> st := (st a)\<lparr> params := p' \<rparr> \<rparr>
      in if p'\<lparr> page := 0 \<rparr> = p\<lparr> page := 0 \<rparr> then a' else searchEffect (st a') a')"

text \<open>\<^verbatim>\<open>onSubmit\<close> of the render \<open>s\<close> (lines 393-397).\<close>

definition onSubmit :: "state \<Rightarrow> app \<Rightarrow> app" where
  "onSubmit s a =
     doSearch s False True (a\<lparr> st := (st a)\<lparr> params := (params (st a))\<lparr> page := 1 \<rparr> \<rparr> \<rparr>)"

text \<open>
  \<^verbatim>\<open>loadMore\<close> of the render \<open>s\<close> (lines 404-412): the updater adds one to the current
  page and schedules \<^verbatim>\<open>doSearch({ append: true, immediate: true })\<close> of the render
  \<^verbatim>\<open>loadMore\<close> belongs to. The updater runs once, as in a production build.
\<close>

definition loadMore :: "state \<Rightarrow> app \<Rightarrow> app" where
  "loadMore s a =
     (if loading s then a
      else a\<lparr> st := (st a)\<lparr> params := (params (st a))\<lparr> page := page (params (st a)) + 1 \<rparr> \<rparr>,
              timeouts := timeouts a @ [\<lparr> snap = s, optAppend = True \<rparr>] \<rparr>)"

text \<open>The handler of the Prev button of the render \<open>s\<close> (line 546).\<close>

definition prevPage :: "state \<Rightarrow> app \<Rightarrow> app" where
  "prevPage s a =
     (if page (params s) > 1
      then a\<lparr> st := (st a)\<lparr> params := (params (st a))\<lparr> page := max 1 (page (params (st a)) - 1) \<rparr> \<rparr>,
              timeouts := timeouts a @ [\<lparr> snap = s, optAppend = False \<rparr>] \<rparr>
      else a)"

text \<open>\<^verbatim>\<open>isFav\<close> and \<^verbatim>\<open>toggleFav\<close> (lines 399-402); \<open>favs\<close> is the render's \<^verbatim>\<open>favorites\<close>.\<close>

definition isFav :: "doc list \<Rightarrow> doc \<Rightarrow> bool" where
  "isFav favs d = list_ex (\<lambda>f. key f = key d) favs"

definition toggleFav :: "doc list \<Rightarrow> doc \<Rightarrow> doc list \<Rightarrow> doc list" where
  "toggleFav favs d prev = (if isFav favs d then filter (\<lambda>f. key f \<noteq> key d) prev else d # prev)"

section \<open>Events\<close>

text \<open>
  What can happen to the mounted component. A click runs the handler of the latest
  render, whose values are the current state; a button that is rendered \<^verbatim>\<open>disabled\<close>
  does not call its handler. A pending timer fires; a fetch settles. The first argument
  of \<open>step\<close> is the runtime's \<^verbatim>\<open>toLowerCase\<close>.
\<close>

datatype event =
    Change edit
  | Submit
  | ClickLoadMore
  | ClickPrev
  | DebounceFires
  | TimeoutFires
  | Settles nat outcome
  | ClickFavorite doc
  | ClearFavorites

fun step :: "(string \<Rightarrow> string) \<Rightarrow> event \<Rightarrow> app \<Rightarrow> app" where
  "step toLowerCase (Change e) a = changeParam e a"
| "step toLowerCase Submit a = onSubmit (st a) a"
| "step toLowerCase ClickLoadMore a =
     (if loading (st a) \<or> int (length (results (st a))) \<ge> numFound (st a) then a
      else loadMore (st a) a)"
| "step toLowerCase ClickPrev a =
     (if page (params (st a)) \<le> 1 \<or> loading (st a) then a else prevPage (st a) a)"
| "step toLowerCase DebounceFires a =
     (case debounceTimer a of
        None \<Rightarrow> a
      | Some j \<Rightarrow> exec j (a\<lparr> debounceTimer := None \<rparr>))"
| "step toLowerCase TimeoutFires a =
     (case timeouts a of
        [] \<Rightarrow> a
      | j # js \<Rightarrow> exec j (a\<lparr> timeouts := js \<rparr>))"
| "step toLowerCase (Settles c out) a = settle toLowerCase c out a"
| "step toLowerCase (ClickFavorite d) a =
     a\<lparr> st := (st a)\<lparr> favorites := toggleFav (favorites (st a)) d (favorites (st a)) \<rparr> \<rparr>"
| "step toLowerCase ClearFavorites a = a\<lparr> st := (st a)\<lparr> favorites := [] \<rparr> \<rparr>"

text \<open>The initial values of the \<^verbatim>\<open>useState\<close> calls (lines 265-291).\<close>

definition initialParams :: params where
  "initialParams =
     \<lparr> mode = ModeAll, query = [], titleInput = [], author = [], isbn = [], subjectInput = [],
       langFilter = ''any'', ebookOnly = False, yearMin = [], yearMax = [],
       sortBy = SortRelevance, page = 1, perPage = 20 \<rparr>"

definition initialState :: "doc list \<Rightarrow> state" where
  "initialState stored =
     \<lparr> params = initialParams, loading = False, error = [], results = [], numFound = 0,
       availableLangs = [], availableSubjects = [], availablePublishers = [],
       favorites = stored \<rparr>"

text \<open>
  The component after its first render, with the favorites read from storage: the
  effect has run once.
\<close>

definition mount :: "doc list \<Rightarrow> app" where
  "mount stored =
     searchEffect (initialState stored)
       \<lparr> st = initialState stored, abortRef = None, aborted = [], nextCtrl = 0, inflight = [],
         debounceTimer = None, timeouts = [] \<rparr>"

definition run :: "(string \<Rightarrow> string) \<Rightarrow> doc list \<Rightarrow> event list \<Rightarrow> app" where
  "run toLowerCase stored es = fold (step toLowerCase) es (mount stored)"

section \<open>The details view (\<^verbatim>\<open>DetailsModal\<close>, lines 163-173)\<close>

text \<open>
  The publishers, subjects, publish years and link that \<^verbatim>\<open>DetailsModal\<close> computes from
  its \<^verbatim>\<open>doc\<close> (the texts it shows beside them are not modelled). \<^verbatim>\<open>Array.prototype.sort\<close>
  sorts the array it is called on, in place, and returns it: when the record has a
  \<^verbatim>\<open>publish_year\<close> array, that array is the one sorted. The function returns the
  projection together with the record as the call leaves it.
\<close>

record details =
  detailPublishers :: "string list"
  detailSubjects :: "string list"
  publishYears :: "int list"
  olUrl :: string

definition DetailsModal :: "doc \<Rightarrow> details \<times> doc" where
  "DetailsModal d =
     (let ys = js_sort (cmpDesc (\<lambda>y. y)) (orEmpty (publish_year d))
      in (\<lparr> detailPublishers = take 6 (orEmpty (publisher d)),
            detailSubjects = take 20 (orEmpty (subject d)),
            publishYears = ys,
            olUrl = ''https://openlibrary.org'' @ key d \<rparr>,
          d\<lparr> publish_year := map_option (\<lambda>_. ys) (publish_year d) \<rparr>))"

section \<open>Concrete inputs\<close>

text \<open>
  The runtime of the concrete runs below. Every string these runs lower-case is made of
  ASCII characters, and on such a string \<^verbatim>\<open>toLowerCase\<close> replaces the letters A to Z by a
  to z and keeps every other character.
\<close>

definition asciiLower :: "string \<Rightarrow> string" where
  "asciiLower s =
     map (\<lambda>c. if CHR ''A'' \<le> c \<and> c \<le> CHR ''Z'' then char_of (of_char c + (32::nat)) else c) s"

text \<open>A record with a key, a title and a first publish year, every other field absent.\<close>

definition book :: "string \<Rightarrow> string \<Rightarrow> int option \<Rightarrow> doc" where
  "book k t y =
     \<lparr> key = k, title = Some t, subtitle = None, author_name = None,
       first_publish_year = y, publish_year = None, publisher = None, edition_count = None,
       cover_i = None, language = None, ebook_count_i = None, subject = None \<rparr>"

text \<open>A record with every list field present.\<close>

definition novel :: doc where
  "novel =
     \<lparr> key = ''/works/OL2W'', title = Some ''Emma'', subtitle = None,
       author_name = Some [''Jane Austen''], first_publish_year = Some 1815,
       publish_year = Some [1815, 1996], publisher = Some [''John Murray''],
       edition_count = Some 2, cover_i = None, language = Some [''eng'', ''fre''],
       ebook_count_i = Some 1, subject = Some [''Fiction''] \<rparr>"

text \<open>The component once the first debounce timer has fired: the first search is in flight.\<close>

definition searching :: app where
  "searching = run asciiLower [] [DebounceFires]"


section \<open>Invariants\<close>

text \<open>Every facet value occurs in a record of the published results.\<close>

definition facetsWithin :: "state \<Rightarrow> bool" where
  "facetsWithin s \<longleftrightarrow>
     (\<forall>v\<in>set (availableLangs s). \<exists>d\<in>set (results s). v \<in> set (orEmpty (language d))) \<and>
     (\<forall>v\<in>set (availableSubjects s). \<exists>d\<in>set (results s). v \<in> set (orEmpty (subject d))) \<and>
     (\<forall>v\<in>set (availablePublishers s). \<exists>d\<in>set (results s). v \<in> set (orEmpty (publisher d)))"


section \<open>Theorems\<close>

subsection \<open>Sorting\<close>

lemma insort_cmp_asc: "insort_cmp (cmpAsc k) x xs = insort_key k x xs"
  by (induction xs) (auto simp: cmpAsc_def)

lemma js_sort_asc: "js_sort (cmpAsc k) xs = sort_key k xs"
  by (induction xs) (simp_all add: js_sort_def insort_cmp_asc)

lemma insort_cmp_desc: "insort_cmp (cmpDesc k) x xs = insort_key (\<lambda>d. - k d) x xs"
  by (induction xs) (auto simp: cmpDesc_def)

lemma js_sort_desc: "js_sort (cmpDesc k) xs = sort_key (\<lambda>d. - k d) xs"
  by (induction xs) (simp_all add: js_sort_def insort_cmp_desc)

lemma insort_cmp_const: "insort_cmp (cmpAsc (\<lambda>d. 0::int)) x xs = x # xs"
  by (cases xs) (simp_all add: cmpAsc_def)

lemma js_sort_const: "js_sort (cmpAsc (\<lambda>d. 0::int)) xs = xs"
  by (induction xs) (simp_all add: js_sort_def insort_cmp_const)

lemma sorted_desc: "sorted (map (\<lambda>d. - k d) xs) \<Longrightarrow> sorted_wrt (\<ge>) (map (k :: 'a \<Rightarrow> int) xs)"
  by (induction xs) auto

lemma sortDocs_relevance: "sortDocs lc SortRelevance xs = xs"
  by (simp add: sortDocs_def js_sort_const)

lemma mset_sortDocs: "mset (sortDocs lc sk xs) = mset xs"
  by (cases sk) (simp_all add: sortDocs_def js_sort_asc js_sort_desc)

lemma keyTitle_eq: "keyTitle lc = (\<lambda>d. lc (case title d of None \<Rightarrow> [] | Some t \<Rightarrow> t))"
  by (simp add: keyTitle_def orStr_def fun_eq_iff)

lemma keyAuthor_eq:
  "keyAuthor lc = (\<lambda>d. lc (case author_name d of Some (a # _) \<Rightarrow> a | _ \<Rightarrow> []))"
  by (simp add: keyAuthor_def fun_eq_iff split: option.splits list.splits)

lemma keyYear_eq: "keyYear = (\<lambda>d. case first_publish_year d of None \<Rightarrow> 0 | Some y \<Rightarrow> y)"
  by (simp add: keyYear_def orNum_def fun_eq_iff split: option.splits)

lemma keyLatest_eq:
  "keyLatest =
     (\<lambda>d. case publish_year d of
             Some (y # ys) \<Rightarrow> Max (set (y # ys))
           | _ \<Rightarrow> (case first_publish_year d of None \<Rightarrow> 0 | Some y \<Rightarrow> y))"
  using Max.set_eq_fold[where 'a = int]
  by (simp add: keyLatest_def orNum_def fun_eq_iff split: option.splits list.splits)

lemma sorted_asc: "sorted (map k (js_sort (cmpAsc k) xs))"
  by (simp add: js_sort_asc)

lemma sorted_dsc: "sorted_wrt (\<ge>) (map k (js_sort (cmpDesc k) xs))"
  unfolding js_sort_desc by (rule sorted_desc) simp

lemma stable_asc: "filter (\<lambda>d. k d = v) (js_sort (cmpAsc k) xs) = filter (\<lambda>d. k d = v) xs"
  by (simp add: js_sort_asc sort_key_stable)

lemma stable_dsc:
  "filter (\<lambda>d. k d = v) (js_sort (cmpDesc k) xs) = filter (\<lambda>d. k d = (v::int)) xs"
  using sort_key_stable[of "\<lambda>d. - k d" "- v" xs] by (simp add: js_sort_desc)

text \<open>
  C6: for every merged list \<open>xs\<close>, with \<open>lc\<close> the runtime's \<^verbatim>\<open>toLowerCase\<close>. Sorting by title
  leaves the lower-cased titles (an absent title counts as empty) in ascending order, and
  sorting by author does the same with the lower-cased first author: the comparison does
  not see the case of the letters. Sorting by first publish year leaves the years (an
  absent year counts as 0) in descending order, and sorting by latest publish year does
  the same with the greatest of the record's publish years, or the first publish year
  when it lists none. Records whose keys are equal keep the order they arrived in, for
  each of the four keys. Relevance returns the list as it is, and every sort key returns
  a permutation of the list.
\<close>

theorem sortDocs_orders:
  "sorted (map (\<lambda>d. lc (case title d of None \<Rightarrow> [] | Some t \<Rightarrow> t)) (sortDocs lc SortTitle xs)) \<and>
   sorted (map (\<lambda>d. lc (case author_name d of Some (a # _) \<Rightarrow> a | _ \<Rightarrow> []))
     (sortDocs lc SortAuthor xs)) \<and>
   sorted_wrt (\<ge>) (map (\<lambda>d. case first_publish_year d of None \<Rightarrow> 0 | Some y \<Rightarrow> y)
     (sortDocs lc SortYear xs)) \<and>
   sorted_wrt (\<ge>)
     (map (\<lambda>d. case publish_year d of
                 Some (y # ys) \<Rightarrow> Max (set (y # ys))
               | _ \<Rightarrow> (case first_publish_year d of None \<Rightarrow> 0 | Some y \<Rightarrow> y))
       (sortDocs lc SortLatest xs)) \<and>
   filter (\<lambda>d. lc (case title d of None \<Rightarrow> [] | Some t \<Rightarrow> t) = s) (sortDocs lc SortTitle xs) =
     filter (\<lambda>d. lc (case title d of None \<Rightarrow> [] | Some t \<Rightarrow> t) = s) xs \<and>
   filter (\<lambda>d. lc (case author_name d of Some (a # _) \<Rightarrow> a | _ \<Rightarrow> []) = s)
       (sortDocs lc SortAuthor xs) =
     filter (\<lambda>d. lc (case author_name d of Some (a # _) \<Rightarrow> a | _ \<Rightarrow> []) = s) xs \<and>
   filter (\<lambda>d. (case first_publish_year d of None \<Rightarrow> 0 | Some y \<Rightarrow> y) = n)
       (sortDocs lc SortYear xs) =
     filter (\<lambda>d. (case first_publish_year d of None \<Rightarrow> 0 | Some y \<Rightarrow> y) = n) xs \<and>
   filter (\<lambda>d. (case publish_year d of
                   Some (y # ys) \<Rightarrow> Max (set (y # ys))
                 | _ \<Rightarrow> (case first_publish_year d of None \<Rightarrow> 0 | Some y \<Rightarrow> y)) = n)
       (sortDocs lc SortLatest xs) =
     filter (\<lambda>d. (case publish_year d of
                   Some (y # ys) \<Rightarrow> Max (set (y # ys))
                 | _ \<Rightarrow> (case first_publish_year d of None \<Rightarrow> 0 | Some y \<Rightarrow> y)) = n) xs \<and>
   sortDocs lc SortRelevance xs = xs \<and>
   mset (sortDocs lc sk xs) = mset xs"
proof -
  have title: "sortDocs lc SortTitle xs = js_sort (cmpAsc (keyTitle lc)) xs"
    and author: "sortDocs lc SortAuthor xs = js_sort (cmpAsc (keyAuthor lc)) xs"
    and year: "sortDocs lc SortYear xs = js_sort (cmpDesc keyYear) xs"
    and latest: "sortDocs lc SortLatest xs = js_sort (cmpDesc keyLatest) xs"
    by (simp_all add: sortDocs_def)
  show ?thesis
    unfolding title author year latest
    using sorted_asc[of "keyTitle lc" xs] sorted_asc[of "keyAuthor lc" xs]
      stable_asc[of "keyTitle lc" s xs] stable_asc[of "keyAuthor lc" s xs]
      sorted_dsc[of keyYear xs] sorted_dsc[of keyLatest xs]
      stable_dsc[of keyYear n xs] stable_dsc[of keyLatest n xs]
      sortDocs_relevance[of lc xs] mset_sortDocs[of lc sk xs]
    unfolding keyTitle_eq keyAuthor_eq keyYear_eq keyLatest_eq
    by blast
qed

lemma asciiLower_Banana: "asciiLower ''Banana'' = ''banana''"
  by code_simp

lemma asciiLower_apple: "asciiLower ''apple'' = ''apple''"
  by code_simp

text \<open>
  An instance of C6 under the ASCII runtime: by title, \<^verbatim>\<open>apple\<close> goes before \<^verbatim>\<open>Banana\<close>,
  which the order of the code units alone would put first; by first publish year, 2001
  goes before 1990, and a record without a year goes last.
\<close>

theorem sortDocs_orders_witness:
  "sortDocs asciiLower SortTitle
       [book ''/works/OL4W'' ''Banana'' None, book ''/works/OL5W'' ''apple'' None] =
     [book ''/works/OL5W'' ''apple'' None, book ''/works/OL4W'' ''Banana'' None] \<and>
   ''Banana'' < ''apple'' \<and>
   sorted (map (\<lambda>d. asciiLower (case title d of None \<Rightarrow> [] | Some t \<Rightarrow> t))
     [book ''/works/OL5W'' ''apple'' None, book ''/works/OL4W'' ''Banana'' None]) \<and>
   sortDocs asciiLower SortYear
       [book ''/works/OL6W'' ''A'' None, book ''/works/OL4W'' ''B'' (Some 1990),
        book ''/works/OL5W'' ''C'' (Some 2001)] =
     [book ''/works/OL5W'' ''C'' (Some 2001), book ''/works/OL4W'' ''B'' (Some 1990),
      book ''/works/OL6W'' ''A'' None]"
proof -
  have t: "sortDocs asciiLower SortTitle
       [book ''/works/OL4W'' ''Banana'' None, book ''/works/OL5W'' ''apple'' None] =
     [book ''/works/OL5W'' ''apple'' None, book ''/works/OL4W'' ''Banana'' None]"
    by (simp add: sortDocs_def js_sort_def cmpAsc_def keyTitle_def orStr_def book_def
        asciiLower_Banana asciiLower_apple)
  have y: "sortDocs asciiLower SortYear
       [book ''/works/OL6W'' ''A'' None, book ''/works/OL4W'' ''B'' (Some 1990),
        book ''/works/OL5W'' ''C'' (Some 2001)] =
     [book ''/works/OL5W'' ''C'' (Some 2001), book ''/works/OL4W'' ''B'' (Some 1990),
      book ''/works/OL6W'' ''A'' None]"
    by (simp add: sortDocs_def js_sort_def cmpDesc_def keyYear_def orNum_def book_def)
  have "sorted (map (\<lambda>d. asciiLower (case title d of None \<Rightarrow> [] | Some t \<Rightarrow> t))
     (sortDocs asciiLower SortTitle
       [book ''/works/OL4W'' ''Banana'' None, book ''/works/OL5W'' ''apple'' None]))"
    using sortDocs_orders[of asciiLower
        "[book ''/works/OL4W'' ''Banana'' None, book ''/works/OL5W'' ''apple'' None]"]
    by blast
  then show ?thesis
    unfolding t using t y by simp
qed

subsection \<open>The year-range filter\<close>

lemma in_yearRange:
  "d \<in> set (yearRange ymin ymax ds) \<longleftrightarrow>
     d \<in> set ds \<and>
     (case parseInt ymin of None \<Rightarrow> True | Some m \<Rightarrow> m \<le> orNum (first_publish_year d) 0) \<and>
     (case parseInt ymax of None \<Rightarrow> True | Some M \<Rightarrow> orNum (first_publish_year d) 99999 \<le> M)"
  by (auto simp: yearRange_def Let_def split: option.splits)

lemma parseInt_1990: "parseInt ''1990'' = Some 1990"
  by (simp add: parseInt_def parseDigits_def isWhite_def isDigit_def digitVal_def)

lemma parseInt_2000: "parseInt ''2000'' = Some 2000"
  by (simp add: parseInt_def parseDigits_def isWhite_def isDigit_def digitVal_def)

lemma parseInt_empty: "parseInt [] = None"
  by (simp add: parseInt_def)

text \<open>
  C7, as stated, fails: a record without a first publish year is not kept when only
  \<^verbatim>\<open>yearMax\<close> is set. With \<^verbatim>\<open>yearMin\<close> empty and \<^verbatim>\<open>yearMax\<close> 2000 the sentinel 99999
  is compared with 2000 and the record is dropped.
\<close>

theorem yearRange_counterexample:
  "first_publish_year (book ''/works/OL1W'' ''Dune'' None) = None \<and>
   parseInt [] = None \<and> parseInt ''2000'' = Some 2000 \<and>
   yearRange [] ''2000'' [book ''/works/OL1W'' ''Dune'' None] = []"
  by (simp add: yearRange_def parseInt_2000 parseInt_empty book_def orNum_def)

text \<open>
  C7, amended: a record of 1995 passes the filter 1990 to 2000; a record of 1980 is
  dropped by \<^verbatim>\<open>yearMin\<close> 1990 whatever \<^verbatim>\<open>yearMax\<close> is; a record without a first publish
  year is compared as 0 with the lower bound and as 99999 with the upper bound, so it
  is kept exactly when \<^verbatim>\<open>yearMin\<close> is unset or at most 0 and \<^verbatim>\<open>yearMax\<close> is unset or at
  least 99999: a positive \<^verbatim>\<open>yearMin\<close> drops it, and so does a \<^verbatim>\<open>yearMax\<close> below 99999.
\<close>

theorem yearRange_policy:
  "yearRange ''1990'' ''2000'' [d\<lparr> first_publish_year := Some 1995 \<rparr>] =
     [d\<lparr> first_publish_year := Some 1995 \<rparr>] \<and>
   yearRange ''1990'' ymax [d\<lparr> first_publish_year := Some 1980 \<rparr>] = [] \<and>
   (first_publish_year d = None \<longrightarrow>
      (d \<in> set (yearRange ymin ymax ds) \<longleftrightarrow>
         d \<in> set ds \<and>
         (case parseInt ymin of None \<Rightarrow> True | Some m \<Rightarrow> m \<le> 0) \<and>
         (case parseInt ymax of None \<Rightarrow> True | Some M \<Rightarrow> 99999 \<le> M)))"
  by (auto simp: in_yearRange yearRange_def parseInt_1990 parseInt_2000 orNum_def
      split: option.splits)

text \<open>
  Witness for C7: the record without a year is dropped by \<^verbatim>\<open>yearMin\<close> 1990 alone and by
  \<^verbatim>\<open>yearMax\<close> 2000 alone, and kept when neither bound is set.
\<close>

theorem yearRange_policy_witness:
  "first_publish_year (book ''/works/OL1W'' ''Dune'' None) = None \<and>
   book ''/works/OL1W'' ''Dune'' None
     \<notin> set (yearRange ''1990'' [] [book ''/works/OL1W'' ''Dune'' None]) \<and>
   book ''/works/OL1W'' ''Dune'' None
     \<notin> set (yearRange [] ''2000'' [book ''/works/OL1W'' ''Dune'' None]) \<and>
   book ''/works/OL1W'' ''Dune'' None
     \<in> set (yearRange [] [] [book ''/works/OL1W'' ''Dune'' None])"
  using
    yearRange_policy[where d = "book ''/works/OL1W'' ''Dune'' None" and ymin = "''1990''"
      and ymax = "[]" and ds = "[book ''/works/OL1W'' ''Dune'' None]"]
    yearRange_policy[where d = "book ''/works/OL1W'' ''Dune'' None" and ymin = "[]"
      and ymax = "''2000''" and ds = "[book ''/works/OL1W'' ''Dune'' None]"]
    yearRange_policy[where d = "book ''/works/OL1W'' ''Dune'' None" and ymin = "[]"
      and ymax = "[]" and ds = "[book ''/works/OL1W'' ''Dune'' None]"]
  by (simp add: parseInt_1990 parseInt_2000 parseInt_empty book_def)

subsection \<open>The details view\<close>

text \<open>
  C9, as stated, fails twice on a record whose publish years are 1999, 2001, 2001: the
  years shown keep the repeated 2001, and the record's own \<^verbatim>\<open>publish_year\<close> list is no
  longer the one it was, the sort having reordered it in place.
\<close>

theorem details_counterexample:
  "\<not> distinct (publishYears (fst (DetailsModal
       ((book ''/works/OL1W'' ''Dune'' None)\<lparr> publish_year := Some [1999, 2001, 2001] \<rparr>)))) \<and>
   publish_year (snd (DetailsModal
       ((book ''/works/OL1W'' ''Dune'' None)\<lparr> publish_year := Some [1999, 2001, 2001] \<rparr>)))
     \<noteq> Some [1999, 2001, 2001]"
  by (simp add: DetailsModal_def Let_def book_def js_sort_def cmpDesc_def orEmpty_def)

text \<open>
  C9, amended: the details view shows the record's publish years in descending order,
  each year as often as the record lists it.
\<close>

theorem details_publishYears:
  "sorted_wrt (\<ge>) (publishYears (fst (DetailsModal d))) \<and>
   mset (publishYears (fst (DetailsModal d))) = mset (orEmpty (publish_year d))"
proof -
  have "sorted (map (\<lambda>y. - y) (sort_key (\<lambda>y. - y) (orEmpty (publish_year d))))"
    by simp
  then have "sorted_wrt (\<ge>) (map (\<lambda>y. y) (sort_key (\<lambda>y. - y) (orEmpty (publish_year d))))"
    by (rule sorted_desc)
  then show ?thesis
    by (simp add: DetailsModal_def Let_def js_sort_desc)
qed

subsection \<open>Favorites\<close>

lemma isFav_iff: "isFav favs d \<longleftrightarrow> key d \<in> key ` set favs"
  unfolding isFav_def list_ex_iff image_iff by (auto simp: eq_commute)

lemma toggleFav_twice_new:
  "\<not> isFav favs d \<Longrightarrow> toggleFav (toggleFav favs d favs) d (toggleFav favs d favs) = favs"
  by (auto simp: toggleFav_def isFav_iff filter_id_conv image_iff)

lemma toggleFav_twice_old:
  "isFav favs d \<Longrightarrow>
   toggleFav (toggleFav favs d favs) d (toggleFav favs d favs) =
     d # filter (\<lambda>f. key f \<noteq> key d) favs"
  by (auto simp: toggleFav_def isFav_iff)

text \<open>
  C10: in every state and for every record, two clicks on the record's favorite button
  leave the favorites with the keys they had: the set of stored records, identified by
  key, is the original one.
\<close>

theorem toggle_twice:
  "key ` set (favorites (st (step lc (ClickFavorite d) (step lc (ClickFavorite d) a)))) =
   key ` set (favorites (st a))"
proof (cases "isFav (favorites (st a)) d")
  case True
  then show ?thesis
    by (auto simp: toggleFav_twice_old isFav_iff)
next
  case False
  then show ?thesis
    by (simp add: toggleFav_twice_new)
qed

subsection \<open>Settling a fetch\<close>

lemmas handler_defs = changeParam_def searchEffect_def onSubmit_def loadMore_def prevPage_def
  doSearch_def exec_def settle_def finish_def onSuccess_def onError_def Let_def

lemmas start_defs = run_def mount_def initialState_def initialParams_def

lemmas filter_defs = applyFilters_def yearRange_def parseInt_empty orEmpty_def orNum_def orStr_def

lemmas facet_defs = deriveFacets_def collect_def setAdd_def

lemmas sort_defs = sortDocs_def js_sort_def cmpAsc_def cmpDesc_def keyTitle_def keyAuthor_def
  keyYear_def keyLatest_def

lemmas query_defs = buildQuery_def toString.simps digit_def

lemma settle_found:
  "find (\<lambda>r. ctrl r = c) (inflight a) = Some r \<Longrightarrow>
   st (settle lc c out a) =
     finish lc (call r)
       (if c \<in> set (aborted a) then Rejected ''AbortError'' ''The operation was aborted.'' else out)
       (st a)"
  by (simp add: settle_def)

lemma searching_eval:
  "searching =
     \<lparr> st = (initialState [])\<lparr> loading := True \<rparr>, abortRef = Some 0, aborted = [], nextCtrl = 1,
       inflight = [\<lparr> ctrl = 0, call = \<lparr> snap = initialState [], optAppend = False \<rparr>,
                     url = buildQuery initialParams \<rparr>],
       debounceTimer = None, timeouts = [] \<rparr>"
  by (simp add: searching_def start_defs handler_defs)

lemma searching_found:
  "find (\<lambda>r. ctrl r = 0) (inflight searching) =
     Some \<lparr> ctrl = 0, call = \<lparr> snap = initialState [], optAppend = False \<rparr>,
            url = buildQuery initialParams \<rparr>"
  by (simp add: searching_eval)

lemma searching_live: "0 \<notin> set (aborted searching)"
  by (simp add: searching_eval)

lemma applyFilters_initial: "applyFilters initialParams ds = ds"
  by (simp add: applyFilters_def initialParams_def yearRange_def parseInt_empty)

text \<open>
  What a cancelled fetch does when it settles: nothing of its response is published and
  no error is set, and the loading flag is cleared.
\<close>

lemma cancelled_fetch_effect:
  "find (\<lambda>r. ctrl r = c) (inflight a) = Some r \<Longrightarrow> c \<in> set (aborted a) \<Longrightarrow>
   st (settle lc c out a) = (st a)\<lparr> loading := False \<rparr>"
  by (simp add: settle_found finish_def onError_def)

text \<open>
  C1 fails on the loading flag. The first search (controller 0) is in flight when the
  form is submitted; the submit aborts it and issues the fetch of controller 1, with the
  loading flag set. When the aborted fetch settles, whatever the network had for it, the
  \<^verbatim>\<open>finally\<close> block clears the loading flag while the fetch of controller 1 is still in
  flight and not aborted.
\<close>

theorem cancelled_fetch_clears_loading:
  "loading (st (run lc [] [DebounceFires, Submit])) \<and>
   map ctrl (inflight (run lc [] [DebounceFires, Submit])) = [0, 1] \<and>
   aborted (run lc [] [DebounceFires, Submit]) = [0] \<and>
   \<not> loading (st (run lc [] [DebounceFires, Submit, Settles 0 out])) \<and>
   map ctrl (inflight (run lc [] [DebounceFires, Submit, Settles 0 out])) = [1] \<and>
   aborted (run lc [] [DebounceFires, Submit, Settles 0 out]) = [0]"
  by (simp add: start_defs handler_defs)

text \<open>
  What a failed fetch does when it settles, seen from the state just before: it sets
  the error and clears the loading flag, and changes nothing else.
\<close>

lemma failed_settle_effect:
  assumes "find (\<lambda>r. ctrl r = c) (inflight a) = Some r"
    and "c \<notin> set (aborted a)"
    and "out = NotOk status \<or> out = Rejected n m \<and> n \<noteq> ''AbortError''"
  shows "st (settle lc c out a) =
    (st a)\<lparr> error := (case out of
                         NotOk k \<Rightarrow> ''HTTP '' @ toString k
                       | Rejected _ msg \<Rightarrow> if msg = [] then ''Something went wrong'' else msg
                       | Ok _ _ \<Rightarrow> []),
            loading := False \<rparr>"
  using assms by (auto simp: settle_found finish_def onError_def)

subsection \<open>Facets\<close>

lemma set_fold_setAdd: "set (fold setAdd xs acc) = set xs \<union> set acc"
  by (induction xs arbitrary: acc) (auto simp: setAdd_def)

lemma langs_fold_collect:
  "set (langs (fold collect ds f)) = set (langs f) \<union> (\<Union>d\<in>set ds. set (orEmpty (language d)))"
  by (induction ds arbitrary: f) (auto simp: collect_def set_fold_setAdd)

lemma subjects_fold_collect:
  "set (subjects (fold collect ds f)) =
     set (subjects f) \<union> (\<Union>d\<in>set ds. set (take 10 (orEmpty (subject d))))"
  by (induction ds arbitrary: f) (auto simp: collect_def set_fold_setAdd)

lemma publishers_fold_collect:
  "set (publishers (fold collect ds f)) =
     set (publishers f) \<union> (\<Union>d\<in>set ds. set (take 3 (orEmpty (publisher d))))"
  by (induction ds arbitrary: f) (auto simp: collect_def set_fold_setAdd)

lemma set_sortDocs: "set (sortDocs lc sk xs) = set xs"
  by (metis mset_sortDocs set_mset_mset)

lemma facetsWithin_onSuccess: "facetsWithin (onSuccess lc j dd nf s)"
  unfolding facetsWithin_def onSuccess_def Let_def deriveFacets_def
  by (auto simp: set_sortDocs langs_fold_collect subjects_fold_collect publishers_fold_collect
      dest!: in_set_takeD)

text \<open>
  C8: when a fetch in flight that was not aborted settles with a response, every
  language, subject and publisher among the facets of the new state occurs in a record
  of the new results.
\<close>

theorem facets_within_results:
  assumes "find (\<lambda>r. ctrl r = c) (inflight a) = Some r"
    and "c \<notin> set (aborted a)"
    and "s' = st (settle lc c (Ok dd nf) a)"
  shows "(\<forall>v\<in>set (availableLangs s'). \<exists>d\<in>set (results s'). v \<in> set (orEmpty (language d))) \<and>
     (\<forall>v\<in>set (availableSubjects s'). \<exists>d\<in>set (results s'). v \<in> set (orEmpty (subject d))) \<and>
     (\<forall>v\<in>set (availablePublishers s'). \<exists>d\<in>set (results s'). v \<in> set (orEmpty (publisher d)))"
proof -
  have "s' = (onSuccess lc (call r) dd nf (st a))\<lparr> loading := False \<rparr>"
    using assms by (simp add: settle_found finish_def)
  moreover have "facetsWithin (onSuccess lc (call r) dd nf (st a))"
    by (rule facetsWithin_onSuccess)
  ultimately show ?thesis
    by (simp add: facetsWithin_def)
qed

text \<open>
  Witness for C8: the first search returns one record in English and French; both
  languages are facets, and French is a language of a record of the results.
\<close>

theorem facets_within_results_witness:
  "find (\<lambda>r. ctrl r = 0) (inflight searching) \<noteq> None \<and> 0 \<notin> set (aborted searching) \<and>
   availableLangs (st (settle asciiLower 0 (Ok (Some [novel]) (Some 1)) searching)) = [''eng'', ''fre''] \<and>
   (\<exists>d\<in>set (results (st (settle asciiLower 0 (Ok (Some [novel]) (Some 1)) searching))).
      ''fre'' \<in> set (orEmpty (language d)))"
proof -
  have "availableLangs (st (settle asciiLower 0 (Ok (Some [novel]) (Some 1)) searching)) = [''eng'', ''fre'']"
    by (simp add: settle_found[OF searching_found] searching_live finish_def onSuccess_def Let_def
        initialState_def applyFilters_initial orEmpty_def facet_defs novel_def)
  with facets_within_results[OF searching_found searching_live refl,
      where lc = asciiLower and dd = "Some [novel]" and nf = "Some 1"]
    searching_found
  show ?thesis by (simp add: searching_live)
qed

text \<open>The same holds in every state the component can reach.\<close>

lemma facetsWithin_finish: "facetsWithin s \<Longrightarrow> facetsWithin (finish lc j out s)"
  using facetsWithin_onSuccess[of lc j _ _ s]
  by (cases out) (auto simp: finish_def onError_def facetsWithin_def)

lemma facetsWithin_step: "facetsWithin (st a) \<Longrightarrow> facetsWithin (st (step lc e a))"
proof (cases e)
  case (Settles c out)
  then show "facetsWithin (st a) \<Longrightarrow> ?thesis"
    by (auto simp: settle_def facetsWithin_finish split: option.splits)
qed (auto simp: facetsWithin_def handler_defs split: option.splits list.splits)

lemma facetsWithin_run: "facetsWithin (st (run lc stored es))"
proof -
  have "facetsWithin (st a) \<Longrightarrow> facetsWithin (st (fold (step lc) es a))" for a
    by (induction es arbitrary: a) (simp_all add: facetsWithin_step)
  moreover have "facetsWithin (st (mount stored))"
    by (simp add: facetsWithin_def mount_def initialState_def searchEffect_def doSearch_def)
  ultimately show ?thesis
    by (simp add: run_def)
qed

subsection \<open>Load more\<close>













subsection \<open>Failed fetches\<close>




subsection \<open>The page of the outbound request\<close>

text \<open>
  C2 fails on the page of the request. After the first page (page 1, one record, a
  hundred matches) a click on Load more sets the page to 2, and the fetch it issues is
  an appending one whose \<^verbatim>\<open>page\<close> parameter is 1: \<^verbatim>\<open>doSearch\<close> reads the page of the
  render the click came from.
\<close>

theorem loadMore_fetches_old_page:
  "page (params (st (run lc [] [DebounceFires, Settles 0 (Ok (Some [novel]) (Some 100))]))) = 1 \<and>
   page (params (st (run lc [] [DebounceFires, Settles 0 (Ok (Some [novel]) (Some 100)),
       ClickLoadMore, TimeoutFires]))) = 2 \<and>
   map (\<lambda>r. (optAppend (call r), map_of (url r) ''page''))
     (inflight (run lc [] [DebounceFires, Settles 0 (Ok (Some [novel]) (Some 100)),
       ClickLoadMore, TimeoutFires])) = [(True, Some ''1'')]"
  by (simp add: start_defs handler_defs filter_defs facet_defs sort_defs query_defs novel_def)

text \<open>
  C3 fails on the page of the request. With the page at 2, a change of the sort key
  resets the page to 1 and its debounced fetch replaces the results, but the \<^verbatim>\<open>page\<close>
  parameter of the request is 2: the effect calls the \<^verbatim>\<open>doSearch\<close> of the render that
  still had page 2.
\<close>

theorem edit_fetches_old_page:
  "page (params (st (run lc [] [DebounceFires, Settles 0 (Ok (Some [novel]) (Some 100)),
       ClickLoadMore, TimeoutFires, Settles 1 (Ok (Some [novel]) (Some 100))]))) = 2 \<and>
   page (params (st (run lc [] [DebounceFires, Settles 0 (Ok (Some [novel]) (Some 100)),
       ClickLoadMore, TimeoutFires, Settles 1 (Ok (Some [novel]) (Some 100)),
       Change (SetSortBy SortTitle), DebounceFires]))) = 1 \<and>
   map (\<lambda>r. (optAppend (call r), map_of (url r) ''page''))
     (inflight (run lc [] [DebounceFires, Settles 0 (Ok (Some [novel]) (Some 100)),
       ClickLoadMore, TimeoutFires, Settles 1 (Ok (Some [novel]) (Some 100)),
       Change (SetSortBy SortTitle), DebounceFires])) = [(False, Some ''2'')]"
  by (simp add: start_defs handler_defs filter_defs facet_defs sort_defs query_defs novel_def)

end
